theory Spec2Isabelle
  imports Complex_Main
begin

section \<open>Errors\<close>

text \<open>
  Every exception the modelled Python can raise is a value.  A function that can raise
  returns \<open>error + 'a\<close>, with \<open>Inl\<close> for the exception.  \<open>RuntimeError\<close> stands for the
  errors raised by the tensor library (shape mismatch, index out of range inside a kernel,
  an empty reduction); the others are the Python exceptions of the same name.
\<close>

datatype error =
    RuntimeError
  | IndexError
  | ZeroDivisionError
  | AssertionError
  | TypeError
  | ValueError

section \<open>Batch collation (utils.py, \<open>collate_batch\<close>)\<close>

text \<open>
  A one-dimensional integer tensor is an \<open>int list\<close>; the stacked result is a list of rows.

  \<open>pad t (l, r) v\<close> is \<open>torch.nn.functional.pad(t, (l, r), value=v)\<close> on a one-dimensional
  tensor: a non-negative amount adds that many copies of \<open>v\<close> on its side, a negative amount
  removes that many elements from its side, and a resulting size below zero is an error.
\<close>

definition pad :: "int list \<Rightarrow> int \<times> int \<Rightarrow> int \<Rightarrow> error + int list" where
  "pad t p v =
     (case p of (l, r) \<Rightarrow>
        if int (length t) + l + r < 0 then Inl RuntimeError
        else Inr (replicate (nat l) v
                  @ drop (nat (- l)) (take (nat (int (length t) + r)) t)
                  @ replicate (nat r) v))"




section \<open>Decoding (utils.py)\<close>

subsection \<open>The model the decoders call\<close>

text \<open>
  The decoders use a trained encoder-decoder only through \<open>encode\<close>, \<open>decode\<close> and
  \<open>generator\<close>.  The first dimension of every tensor is the batch dimension and is modelled
  as a list, because \<open>beam_search_decode\<close> expands the memory and the source mask along
  it.  A batch of token sequences is an \<open>int list list\<close>; the decoder output is a batch of
  rows of hidden vectors, one per position; the generator output is a batch of rows of
  log-probabilities, one per vocabulary entry.  Log-probabilities are real numbers (the
  floating-point values of the tensors are idealised).
\<close>

record ('src, 'msk, 'mem, 'hid) model =
  encode :: "'src \<Rightarrow> 'msk list \<Rightarrow> 'mem list"
  decode :: "'mem list \<Rightarrow> 'msk list \<Rightarrow> int list list \<Rightarrow> int list list list \<Rightarrow> 'hid list list"
  generator :: "'hid list \<Rightarrow> real list list"

text \<open>
  \<open>subsequent_mask(size)\<close>: the upper triangle above the diagonal of a \<open>(1, size, size)\<close>
  tensor of ones, compared with zero.
\<close>

definition subsequent_mask :: "nat \<Rightarrow> bool list list list" where
  "subsequent_mask sz =
     (let triu = [map (\<lambda>i. map (\<lambda>j. if i + 1 \<le> j then (1::nat) else 0) [0..<sz]) [0..<sz]]
      in map (map (map (\<lambda>v. v = 0))) triu)"

text \<open>\<open>.type_as(src.data)\<close> on a boolean tensor: the integers 1 and 0.\<close>

definition type_as :: "bool list list list \<Rightarrow> int list list list" where
  "type_as t = map (map (map (\<lambda>b. if b then 1 else 0))) t"

text \<open>\<open>t.size(1)\<close> of a two-dimensional tensor given as its list of rows.\<close>

definition size1 :: "'a list list \<Rightarrow> nat" where
  "size1 t = (case t of [] \<Rightarrow> 0 | r # _ \<Rightarrow> length r)"

text \<open>\<open>out[:, -1]\<close>: the last position of every row.\<close>

definition last_position :: "'a list list \<Rightarrow> error + 'a list" where
  "last_position out = (if list_all (\<lambda>r. r \<noteq> []) out then Inr (map last out) else Inl IndexError)"

text \<open>
  The index of the first maximal element of a non-empty row, and \<open>torch.max(prob, dim=1)\<close>'s
  indices: an empty reduction dimension is an error.
\<close>

fun max_index :: "real list \<Rightarrow> nat" where
  "max_index [] = 0"
| "max_index [x] = 0"
| "max_index (x # y # ys) =
     (let j = max_index (y # ys) in if x < (y # ys) ! j then Suc j else 0)"

definition max_dim1 :: "real list list \<Rightarrow> error + nat list" where
  "max_dim1 prob =
     (if list_all (\<lambda>r. r \<noteq> []) prob then Inr (map max_index prob) else Inl RuntimeError)"

text \<open>\<open>torch.cat([a, b], dim=1)\<close> on two-dimensional tensors: the row counts must agree.\<close>

definition cat_dim1 :: "int list list \<Rightarrow> int list list \<Rightarrow> error + int list list" where
  "cat_dim1 a b = (if length a = length b then Inr (map2 (@) a b) else Inl RuntimeError)"


subsection \<open>\<open>greedy_decode\<close>\<close>

text \<open>
  The first four statements of the loop body: the decoder call, the generator on the last
  position, the row-wise maximum and \<open>next_word.data[0]\<close>.
\<close>

definition next_word ::
  "('src, 'msk, 'mem, 'hid) model \<Rightarrow> 'mem list \<Rightarrow> 'msk list \<Rightarrow> int list list \<Rightarrow> error + nat" where
  "next_word m mem src_mask ys =
     (let out = decode m mem src_mask ys (type_as (subsequent_mask (size1 ys)))
      in case last_position out of
           Inl e \<Rightarrow> Inl e
         | Inr lst \<Rightarrow>
             (let prob = generator m lst
              in case max_dim1 prob of
                   Inl e \<Rightarrow> Inl e
                 | Inr next_words \<Rightarrow>
                     (case next_words of [] \<Rightarrow> Inl IndexError | w # _ \<Rightarrow> Inr w)))"

text \<open>One iteration of the \<open>for i in range(max_len - 1)\<close> loop.\<close>

definition greedy_step ::
  "('src, 'msk, 'mem, 'hid) model \<Rightarrow> 'mem list \<Rightarrow> 'msk list \<Rightarrow> int list list
     \<Rightarrow> error + int list list" where
  "greedy_step m mem src_mask ys =
     (case next_word m mem src_mask ys of
        Inl e \<Rightarrow> Inl e
      | Inr w \<Rightarrow> cat_dim1 ys [[int w]])"

fun greedy_loop ::
  "('src, 'msk, 'mem, 'hid) model \<Rightarrow> 'mem list \<Rightarrow> 'msk list \<Rightarrow> nat \<Rightarrow> int list list
     \<Rightarrow> error + int list list" where
  "greedy_loop m mem src_mask 0 ys = Inr ys"
| "greedy_loop m mem src_mask (Suc n) ys =
     (case greedy_step m mem src_mask ys of
        Inl e \<Rightarrow> Inl e
      | Inr ys' \<Rightarrow> greedy_loop m mem src_mask n ys')"

definition greedy_decode ::
  "('src, 'msk, 'mem, 'hid) model \<Rightarrow> 'src \<Rightarrow> 'msk list \<Rightarrow> int \<Rightarrow> int \<Rightarrow> error + int list list" where
  "greedy_decode m src src_mask max_len start_symbol =
     (let mem = encode m src src_mask;
          ys = [[start_symbol]]
      in greedy_loop m mem src_mask (nat (max_len - 1)) ys)"

subsection \<open>\<open>beam_search_decode\<close>\<close>

text \<open>
  The variables the loop updates: the hypotheses \<open>ys\<close> (one row each), their scores, and
  the encoder memory and source mask with their batch dimension.  The calls of \<open>.cuda()\<close>
  place tensors on the accelerator and do not change their values; they are left out.
\<close>

record ('msk, 'mem) beam_state =
  bs_ys :: "int list list"
  bs_scores :: "real list"
  bs_memory :: "'mem list"
  bs_src_mask :: "'msk list"

text \<open>
  \<open>prob[ys[:,-1] == end_idx, :] = 0\<close>: the rows of \<open>prob\<close> selected by the boolean mask are
  overwritten with zeros; the mask must have one entry per row of \<open>prob\<close>.
\<close>

definition zero_finished :: "int \<Rightarrow> int list list \<Rightarrow> real list list \<Rightarrow> error + real list list" where
  "zero_finished end_idx ys prob =
     (if \<not> list_all (\<lambda>r. r \<noteq> []) ys then Inl IndexError
      else if length ys \<noteq> length prob then Inl IndexError
      else Inr (map2 (\<lambda>r p. if last r = end_idx then map (\<lambda>_. 0) p else p) ys prob))"

text \<open>
  \<open>scores.unsqueeze(1).repeat(1, vocab_size) + prob\<close>, with the broadcasting of the
  addition along the first dimension.
\<close>

definition add_scores :: "real list \<Rightarrow> nat \<Rightarrow> real list list \<Rightarrow> error + real list list" where
  "add_scores scores vocab_size prob =
     (let s = map (\<lambda>v. replicate vocab_size v) scores
      in if length s = length prob then Inr (map2 (map2 (+)) s prob)
         else if length s = 1 then Inr (map (map2 (+) (hd s)) prob)
         else if length prob = 1 then Inr (map (\<lambda>r. map2 (+) r (hd prob)) s)
         else Inl RuntimeError)"

text \<open>
  \<open>torch.topk(t, k)\<close> on a one-dimensional tensor: the \<open>k\<close> largest values in descending
  order, with their indices.  The library leaves the order of equal values open; here the
  lower index comes first (the sort is stable).
\<close>

definition topk :: "real list \<Rightarrow> int \<Rightarrow> error + (real list \<times> nat list)" where
  "topk t k =
     (if k < 0 \<or> int (length t) < k then Inl RuntimeError
      else (let sel = take (nat k) (sort_key (\<lambda>p. - snd p) (enumerate 0 t))
            in Inr (map snd sel, map fst sel)))"

text \<open>
  The \<open>for k in range(beam_size)\<close> loop over the selected (row, column) pairs: each pair
  extends its parent \<open>ys[i]\<close> by one token, and the new rows are collected in order.
\<close>

fun extend_hyps ::
  "int \<Rightarrow> int list list \<Rightarrow> real list list \<Rightarrow> (nat \<times> nat) list \<Rightarrow> error + int list list" where
  "extend_hyps end_idx ys prob [] = Inr []"
| "extend_hyps end_idx ys prob ((i, j) # sel) =
     (if \<not> i < length ys then Inl IndexError
      else if \<not> (i < length prob \<and> j < length (prob ! i)) then Inl IndexError
      else (let prev_seq = ys ! i;
                new_seq = (if prob ! i ! j = 0 then prev_seq @ [end_idx] else prev_seq @ [int j])
            in case extend_hyps end_idx ys prob sel of
                 Inl e \<Rightarrow> Inl e
               | Inr newys \<Rightarrow> Inr (new_seq # newys)))"

text \<open>\<open>(ys[:, -1] == end_idx).sum() == beam_size\<close>.\<close>

definition all_ended :: "int \<Rightarrow> int \<Rightarrow> int list list \<Rightarrow> bool" where
  "all_ended beam_size end_idx ys = (int (length (filter (\<lambda>r. last r = end_idx) ys)) = beam_size)"

text \<open>
  \<open>t.expand(n, *t.shape[1:])\<close>: a first dimension of size 1 is repeated \<open>n\<close> times, a first
  dimension of size \<open>n\<close> is kept, anything else is an error.
\<close>

definition expand :: "int \<Rightarrow> 'a list \<Rightarrow> error + 'a list" where
  "expand n t =
     (if int (length t) = n then Inr t
      else if length t = 1 \<and> 0 \<le> n then Inr (replicate (nat n) (hd t))
      else Inl RuntimeError)"

text \<open>
  One iteration of the \<open>for i in range(max_len - 1)\<close> loop; the boolean says whether the
  iteration left the loop through \<open>break\<close>.  The inner loop assigns \<open>i = rows[k]\<close>, so the
  test \<open>if i==0\<close> after it reads the row of the last selected pair; with \<open>beam_size = 0\<close>
  the inner loop does not run, \<open>ys\<close> becomes the empty Python list and \<open>ys[:, -1]\<close> is a
  TypeError.
\<close>

definition beam_step ::
  "('src, 'msk, 'mem, 'hid) model \<Rightarrow> int \<Rightarrow> int \<Rightarrow> nat \<Rightarrow> ('msk, 'mem) beam_state
     \<Rightarrow> error + (('msk, 'mem) beam_state \<times> bool)" where
  "beam_step m beam_size end_idx i st =
     (let ys = bs_ys st;
          out = decode m (bs_memory st) (bs_src_mask st) ys (type_as (subsequent_mask (size1 ys)))
      in case last_position out of
           Inl e \<Rightarrow> Inl e
         | Inr lst \<Rightarrow>
             (let prob0 = generator m lst;
                  vocab_size = size1 prob0
              in case zero_finished end_idx ys prob0 of
                   Inl e \<Rightarrow> Inl e
                 | Inr prob \<Rightarrow>
                     (case (if i = 0 then Inr prob else add_scores (bs_scores st) vocab_size prob) of
                        Inl e \<Rightarrow> Inl e
                      | Inr combined \<Rightarrow>
                          (case topk (concat combined) beam_size of
                             Inl e \<Rightarrow> Inl e
                           | Inr (k_values, k_indices) \<Rightarrow>
                               (let rows = map (\<lambda>x. x div size1 combined) k_indices;
                                    cols = map (\<lambda>x. x mod size1 combined) k_indices
                                in case extend_hyps end_idx ys prob (zip rows cols) of
                                     Inl e \<Rightarrow> Inl e
                                   | Inr newys \<Rightarrow>
                                       if newys = [] then Inl TypeError
                                       else if all_ended beam_size end_idx newys
                                       then Inr (st\<lparr>bs_ys := newys, bs_scores := k_values\<rparr>, True)
                                       else if last rows = 0
                                       then (case expand beam_size (bs_memory st) of
                                               Inl e \<Rightarrow> Inl e
                                             | Inr mem' \<Rightarrow>
                                                 (case expand beam_size (bs_src_mask st) of
                                                    Inl e \<Rightarrow> Inl e
                                                  | Inr src_mask' \<Rightarrow>
                                                      Inr (\<lparr>bs_ys = newys, bs_scores = k_values,
                                                            bs_memory = mem', bs_src_mask = src_mask'\<rparr>,
                                                           False)))
                                       else Inr (st\<lparr>bs_ys := newys, bs_scores := k_values\<rparr>, False))))))"

text \<open>
  The loop: \<open>n\<close> iterations remain, \<open>i\<close> is the loop index.  The result is the state in
  which the loop ends together with the number of iterations it has performed.
\<close>

fun beam_loop ::
  "('src, 'msk, 'mem, 'hid) model \<Rightarrow> int \<Rightarrow> int \<Rightarrow> nat \<Rightarrow> nat \<Rightarrow> ('msk, 'mem) beam_state
     \<Rightarrow> error + (('msk, 'mem) beam_state \<times> nat)" where
  "beam_loop m beam_size end_idx 0 i st = Inr (st, i)"
| "beam_loop m beam_size end_idx (Suc n) i st =
     (case beam_step m beam_size end_idx i st of
        Inl e \<Rightarrow> Inl e
      | Inr (st', stop) \<Rightarrow>
          if stop then Inr (st', Suc i) else beam_loop m beam_size end_idx n (Suc i) st')"

text \<open>
  \<open>max(zip(ys, scores), key=lambda x: x[1])\<close>: the first pair with the greatest score; an
  empty sequence is a ValueError.
\<close>

definition max_by_score :: "(int list \<times> real) list \<Rightarrow> error + int list" where
  "max_by_score ps =
     (if ps = [] then Inl ValueError else Inr (fst (ps ! max_index (map snd ps))))"

text \<open>The state in which the loop starts.\<close>

definition beam_init ::
  "('src, 'msk, 'mem, 'hid) model \<Rightarrow> 'src \<Rightarrow> 'msk list \<Rightarrow> int \<Rightarrow> ('msk, 'mem) beam_state" where
  "beam_init m src src_mask start_symbol =
     \<lparr>bs_ys = [[start_symbol]], bs_scores = [0],
      bs_memory = encode m src src_mask, bs_src_mask = src_mask\<rparr>"

definition beam_search_decode ::
  "('src, 'msk, 'mem, 'hid) model \<Rightarrow> 'src \<Rightarrow> 'msk list \<Rightarrow> int \<Rightarrow> int \<Rightarrow> int \<Rightarrow> int
     \<Rightarrow> error + int list list" where
  "beam_search_decode m src src_mask max_len start_symbol beam_size end_idx =
     (case beam_loop m beam_size end_idx (nat (max_len - 1)) 0
             (beam_init m src src_mask start_symbol) of
        Inl e \<Rightarrow> Inl e
      | Inr (st, n) \<Rightarrow>
          (case max_by_score (zip (bs_ys st) (bs_scores st)) of
             Inl e \<Rightarrow> Inl e
           | Inr best \<Rightarrow> Inr [best]))"


subsection \<open>Two small models\<close>

text \<open>
  Concrete models on which the decoders are evaluated below.  Both have the vocabulary
  \<open>{0, 1, 2}\<close>, a single encoder row, and a decoder whose hidden vector at a position is the
  token at that position.

  \<open>example_model\<close> prefers token 2 after token 0 and token 1 after anything else.
  \<open>saturated_model\<close> always gives token 2 the log-probability 0 (probability 1, as a
  floating-point log-softmax does once one logit dominates) and lower values to the rest.
\<close>

definition example_model :: "(unit, unit, unit, int) model" where
  "example_model =
     \<lparr>encode = (\<lambda>src src_mask. [()]),
      decode = (\<lambda>mem src_mask ys tgt_mask. ys),
      generator = map (\<lambda>h. if h = 0 then [- 9, - 8, - 1] else [- 9, - 1, - 5])\<rparr>"

definition saturated_model :: "(unit, unit, unit, int) model" where
  "saturated_model =
     \<lparr>encode = (\<lambda>src src_mask. [()]),
      decode = (\<lambda>mem src_mask ys tgt_mask. ys),
      generator = map (\<lambda>h. [- 100, - 50, 0])\<rparr>"

section \<open>Label smoothing (layers.py, \<open>LabelSmoothing\<close>)\<close>

text \<open>
  The attributes \<open>__init__\<close> sets.  Class indices and the size are Python integers; the
  smoothing mass and the confidence are real numbers (the floating-point values are
  idealised).
\<close>

record label_smoothing =
  ls_padding_idx :: int
  ls_confidence :: real
  ls_smoothing :: real
  ls_size :: int

definition LabelSmoothing :: "int \<Rightarrow> int \<Rightarrow> real \<Rightarrow> label_smoothing" where
  "LabelSmoothing sz padding_idx smoothing =
     \<lparr>ls_padding_idx = padding_idx, ls_confidence = 1 - smoothing,
      ls_smoothing = smoothing, ls_size = sz\<rparr>"

text \<open>
  A two-dimensional tensor is the list of its rows.

  \<open>t.scatter_(1, target.unsqueeze(1), v)\<close>: row \<open>i\<close> gets \<open>v\<close> at column \<open>target[i]\<close>.  The
  index tensor may not have more rows than \<open>t\<close>, and every index must be a column of \<open>t\<close>.
\<close>

definition scatter_rows :: "real list list \<Rightarrow> int list \<Rightarrow> real \<Rightarrow> error + real list list" where
  "scatter_rows t target v =
     (if length t < length target then Inl RuntimeError
      else if \<not> list_all (\<lambda>c. 0 \<le> c \<and> c < int (size1 t)) target then Inl RuntimeError
      else Inr (map2 (\<lambda>row c. row[nat c := v]) (take (length target) t) target
                @ drop (length target) t))"

text \<open>
  \<open>t[:, c] = v\<close>: Python indexing, so a negative \<open>c\<close> counts from the last column and a
  column outside the tensor is an IndexError.
\<close>

definition set_column :: "real list list \<Rightarrow> int \<Rightarrow> real \<Rightarrow> error + real list list" where
  "set_column t c v =
     (let n = int (size1 t);
          j = (if c < 0 then c + n else c)
      in if 0 \<le> j \<and> j < n then Inr (map (\<lambda>row. row[nat j := v]) t) else Inl IndexError)"

text \<open>\<open>torch.nonzero(target == c)\<close>, squeezed: the positions of \<open>target\<close> that hold \<open>c\<close>.\<close>

definition nonzero_eq :: "int list \<Rightarrow> int \<Rightarrow> nat list" where
  "nonzero_eq target c = filter (\<lambda>i. target ! i = c) [0..<length target]"

text \<open>\<open>t.index_fill_(0, idx, v)\<close>: every row whose number is in \<open>idx\<close> is filled with \<open>v\<close>.\<close>

definition index_fill_rows :: "real list list \<Rightarrow> nat list \<Rightarrow> real \<Rightarrow> real list list" where
  "index_fill_rows t idx v =
     map (\<lambda>(i, row). if i \<in> set idx then map (\<lambda>_. v) row else row) (enumerate 0 t)"

text \<open>
  The tensor \<open>forward(x, target)\<close> builds and stores in \<open>self.true_dist\<close>, statement by
  statement: the assertion on the width of \<open>x\<close>, the fill with
  \<open>self.smoothing / (self.size - 2)\<close> (a Python division, which raises for a zero divisor),
  the scatter of the confidence, the zeroed padding column and the zeroed rows of padding
  targets.  (\<open>torch.nonzero\<close> returns a two-dimensional tensor, so the test
  \<open>mask.dim() > 0\<close> always holds.)  The value \<open>forward\<close> returns is the divergence of \<open>x\<close>
  from this tensor, a floating-point sum that is not modelled.
\<close>

definition true_dist ::
  "label_smoothing \<Rightarrow> real list list \<Rightarrow> int list \<Rightarrow> error + real list list" where
  "true_dist self x target =
     (if int (size1 x) \<noteq> ls_size self then Inl AssertionError
      else if ls_size self - 2 = 0 then Inl ZeroDivisionError
      else (let filled = map (map (\<lambda>_. ls_smoothing self / of_int (ls_size self - 2))) x
            in case scatter_rows filled target (ls_confidence self) of
                 Inl e \<Rightarrow> Inl e
               | Inr scattered \<Rightarrow>
                   (case set_column scattered (ls_padding_idx self) 0 of
                      Inl e \<Rightarrow> Inl e
                    | Inr zeroed \<Rightarrow>
                        (let mask = nonzero_eq target (ls_padding_idx self)
                         in Inr (index_fill_rows zeroed mask 0)))))"


section \<open>Attention (layers.py)\<close>

subsection \<open>Tensors\<close>

text \<open>
  A tensor of any rank is its shape together with its elements in row-major order, as a
  contiguous tensor of the library stores them; the rank is the length of the shape.
  \<open>elem_at t idx\<close> reads the element at a multi-index, \<open>tabulate sh f\<close> builds the tensor of
  shape \<open>sh\<close> whose element at \<open>idx\<close> is \<open>f idx\<close>.  Floating-point values are idealised as
  real numbers.
\<close>

record 'a tensor =
  shape :: "nat list"
  elems :: "'a list"

fun flat_index :: "nat list \<Rightarrow> nat list \<Rightarrow> nat" where
  "flat_index (d # ds) (i # js) = i * prod_list ds + flat_index ds js"
| "flat_index ds js = 0"

fun indices :: "nat list \<Rightarrow> nat list list" where
  "indices [] = [[]]"
| "indices (d # ds) = concat (map (\<lambda>i. map ((#) i) (indices ds)) [0..<d])"

definition elem_at :: "'a tensor \<Rightarrow> nat list \<Rightarrow> 'a" where
  "elem_at t idx = elems t ! flat_index (shape t) idx"

definition tabulate :: "nat list \<Rightarrow> (nat list \<Rightarrow> 'a) \<Rightarrow> 'a tensor" where
  "tabulate sh f = \<lparr>shape = sh, elems = map f (indices sh)\<rparr>"

text \<open>
  Broadcasting of two shapes, aligned at the last dimension: two sizes agree when they are
  equal or one of them is 1.  \<open>broadcast_index sh idx\<close> is the index into a tensor of shape
  \<open>sh\<close> that an index \<open>idx\<close> of the broadcast shape reads.
\<close>

fun broadcast_dims :: "nat list \<Rightarrow> nat list \<Rightarrow> nat list option" where
  "broadcast_dims [] bs = Some bs"
| "broadcast_dims (a # as) [] = Some (a # as)"
| "broadcast_dims (a # as) (b # bs) =
     (if a = b \<or> b = 1 then map_option ((#) a) (broadcast_dims as bs)
      else if a = 1 then map_option ((#) b) (broadcast_dims as bs)
      else None)"

definition broadcast_shapes :: "nat list \<Rightarrow> nat list \<Rightarrow> nat list option" where
  "broadcast_shapes a b = map_option rev (broadcast_dims (rev a) (rev b))"

definition broadcast_index :: "nat list \<Rightarrow> nat list \<Rightarrow> nat list" where
  "broadcast_index sh idx =
     map2 (\<lambda>d i. if d = 1 then 0 else i) sh (drop (length idx - length sh) idx)"

text \<open>\<open>torch.transpose(t, d0, d1)\<close> for non-negative dimensions.\<close>

definition swap_at :: "nat \<Rightarrow> nat \<Rightarrow> 'a list \<Rightarrow> 'a list" where
  "swap_at d0 d1 xs = xs[d0 := xs ! d1, d1 := xs ! d0]"

definition transpose_dims :: "nat \<Rightarrow> nat \<Rightarrow> 'a tensor \<Rightarrow> error + 'a tensor" where
  "transpose_dims d0 d1 t =
     (if d0 < length (shape t) \<and> d1 < length (shape t)
      then Inr (tabulate (swap_at d0 d1 (shape t)) (\<lambda>idx. elem_at t (swap_at d0 d1 idx)))
      else Inl IndexError)"

text \<open>
  \<open>torch.matmul\<close>.  For operands of rank at least 2 the last two dimensions are multiplied
  as matrices and the leading dimensions are broadcast; an operand of rank 1 is given a
  dimension of size 1 for the product, which is removed from the result; rank 0 is an
  error.
\<close>

definition matmul_batched :: "real tensor \<Rightarrow> real tensor \<Rightarrow> error + real tensor" where
  "matmul_batched a b =
     (let ra = length (shape a); rb = length (shape b);
          n = shape a ! (ra - 2); k = shape a ! (ra - 1);
          k' = shape b ! (rb - 2); p = shape b ! (rb - 1);
          ba = take (ra - 2) (shape a); bb = take (rb - 2) (shape b)
      in if k \<noteq> k' then Inl RuntimeError
         else (case broadcast_shapes ba bb of
                 None \<Rightarrow> Inl RuntimeError
               | Some bsh \<Rightarrow>
                   Inr (tabulate (bsh @ [n, p])
                     (\<lambda>idx. let b_idx = take (length bsh) idx;
                                i = idx ! length bsh;
                                j = idx ! (length bsh + 1)
                            in sum_list (map (\<lambda>c. elem_at a (broadcast_index ba b_idx @ [i, c])
                                                  * elem_at b (broadcast_index bb b_idx @ [c, j]))
                                             [0..<k])))))"

definition matmul :: "real tensor \<Rightarrow> real tensor \<Rightarrow> error + real tensor" where
  "matmul a b =
     (let ra = length (shape a); rb = length (shape b)
      in if ra = 0 \<or> rb = 0 then Inl RuntimeError
         else if ra = 1 \<and> rb = 1 then
           (case matmul_batched (a\<lparr>shape := 1 # shape a\<rparr>) (b\<lparr>shape := shape b @ [1]\<rparr>) of
              Inl e \<Rightarrow> Inl e
            | Inr r \<Rightarrow> Inr (r\<lparr>shape := []\<rparr>))
         else if ra = 1 then
           (case matmul_batched (a\<lparr>shape := 1 # shape a\<rparr>) b of
              Inl e \<Rightarrow> Inl e
            | Inr r \<Rightarrow> Inr (r\<lparr>shape := take (rb - 2) (shape r) @ [last (shape r)]\<rparr>))
         else if rb = 1 then
           (case matmul_batched a (b\<lparr>shape := shape b @ [1]\<rparr>) of
              Inl e \<Rightarrow> Inl e
            | Inr r \<Rightarrow> Inr (r\<lparr>shape := butlast (shape r)\<rparr>))
         else matmul_batched a b)"

text \<open>Division of every element by a scalar, and the comparison \<open>t == c\<close>.\<close>

definition div_scalar :: "real tensor \<Rightarrow> real \<Rightarrow> real tensor" where
  "div_scalar t c = t\<lparr>elems := map (\<lambda>x. x / c) (elems t)\<rparr>"

definition eq_scalar :: "int tensor \<Rightarrow> int \<Rightarrow> bool tensor" where
  "eq_scalar t c = \<lparr>shape = shape t, elems = map (\<lambda>x. x = c) (elems t)\<rparr>"

text \<open>
  \<open>t.masked_fill(mask, v)\<close>, the out-of-place method: mask and tensor are broadcast to a
  common shape (either may be expanded), and the result holds \<open>v\<close> where the mask is true.
\<close>

definition masked_fill :: "real tensor \<Rightarrow> bool tensor \<Rightarrow> real \<Rightarrow> error + real tensor" where
  "masked_fill t msk v =
     (case broadcast_shapes (shape msk) (shape t) of
        None \<Rightarrow> Inl RuntimeError
      | Some sh \<Rightarrow>
          Inr (tabulate sh (\<lambda>idx. if elem_at msk (broadcast_index (shape msk) idx) then v
                                  else elem_at t (broadcast_index (shape t) idx))))"

text \<open>\<open>t.unsqueeze(d)\<close> for a non-negative dimension: only the shape changes.\<close>

definition unsqueeze :: "nat \<Rightarrow> 'a tensor \<Rightarrow> error + 'a tensor" where
  "unsqueeze d t =
     (if d \<le> length (shape t)
      then Inr (t\<lparr>shape := take d (shape t) @ [1] @ drop d (shape t)\<rparr>)
      else Inl IndexError)"

text \<open>
  \<open>t.repeat(reps)\<close>: the tensor is tiled \<open>reps[d]\<close> times along dimension \<open>d\<close>; fewer
  repeat counts than dimensions, or a negative count, is an error, and more counts than
  dimensions give the tensor leading dimensions of size 1.
\<close>

definition repeat :: "int list \<Rightarrow> 'a tensor \<Rightarrow> error + 'a tensor" where
  "repeat reps t =
     (if length reps < length (shape t) \<or> list_ex (\<lambda>r. r < 0) reps then Inl RuntimeError
      else (let sh = replicate (length reps - length (shape t)) 1 @ shape t
            in Inr (tabulate (map2 (\<lambda>d r. d * nat r) sh reps)
                      (\<lambda>idx. elem_at (t\<lparr>shape := sh\<rparr>) (map2 (\<lambda>i d. i mod d) idx sh)))))"

text \<open>\<open>Softmax(dim=d)\<close> for a non-negative dimension.\<close>

definition softmax :: "nat \<Rightarrow> real tensor \<Rightarrow> error + real tensor" where
  "softmax d t =
     (if d < length (shape t)
      then Inr (tabulate (shape t)
             (\<lambda>idx. exp (elem_at t idx)
                    / sum_list (map (\<lambda>k. exp (elem_at t (idx[d := k]))) [0..<shape t ! d])))
      else Inl IndexError)"

subsection \<open>\<open>attention\<close>\<close>

text \<open>
  The statements of \<open>attention\<close> up to the softmax: the scaled scores and the mask.  A mask
  is an integer tensor (a boolean mask holds 1 for true and 0 for false).  In the branch
  for a two-dimensional mask the repeat count called \<open>Lq\<close> is read from \<open>key.shape[1]\<close>.
\<close>

definition attention_scores ::
  "real tensor \<Rightarrow> real tensor \<Rightarrow> int tensor option \<Rightarrow> error + real tensor" where
  "attention_scores query key msk =
     (case transpose_dims 1 2 key of
        Inl e \<Rightarrow> Inl e
      | Inr keyT \<Rightarrow>
          (let dk = shape key ! 2
           in case matmul query keyT of
                Inl e \<Rightarrow> Inl e
              | Inr qk \<Rightarrow>
                  (let attn_weights = div_scalar qk (sqrt (real dk))
                   in case msk of
                        None \<Rightarrow> Inr attn_weights
                      | Some m \<Rightarrow>
                          if length (shape m) = 3
                          then masked_fill attn_weights (eq_scalar m 0) (- 1000000000)
                          else if length (shape m) = 2
                          then (case unsqueeze 1 m of
                                  Inl e \<Rightarrow> Inl e
                                | Inr m1 \<Rightarrow>
                                    (let Lq = shape key ! 1
                                     in case repeat [1, int Lq, 1] m1 of
                                          Inl e \<Rightarrow> Inl e
                                        | Inr m2 \<Rightarrow>
                                            masked_fill attn_weights (eq_scalar m2 0)
                                              (- 1000000000)))
                          else Inr attn_weights)))"

text \<open>
  The whole function.  \<open>dropout\<close> is \<open>None\<close> or a probability; \<open>torch.nn.Dropout(p)\<close>
  rejects a probability outside \<open>[0, 1]\<close>, and the freshly built module is in training
  mode, so it zeroes elements at random: \<open>dropout_fn p\<close> stands for what it does to a
  tensor in this call.  The result is the pair \<open>(attn_out, attn_weights)\<close>.
\<close>

definition attention ::
  "(real \<Rightarrow> real tensor \<Rightarrow> real tensor) \<Rightarrow> real tensor \<Rightarrow> real tensor \<Rightarrow> real tensor
     \<Rightarrow> int tensor option \<Rightarrow> real option \<Rightarrow> error + (real tensor \<times> real tensor)" where
  "attention dropout_fn query key val msk dropout =
     (case attention_scores query key msk of
        Inl e \<Rightarrow> Inl e
      | Inr scores \<Rightarrow>
          (case softmax 2 scores of
             Inl e \<Rightarrow> Inl e
           | Inr weights \<Rightarrow>
               (case (case dropout of
                        None \<Rightarrow> Inr weights
                      | Some p \<Rightarrow> if p < 0 \<or> 1 < p then Inl ValueError
                                  else Inr (dropout_fn p weights)) of
                  Inl e \<Rightarrow> Inl e
                | Inr attn_weights \<Rightarrow>
                    (case matmul attn_weights val of
                       Inl e \<Rightarrow> Inl e
                     | Inr attn_out \<Rightarrow> Inr (attn_out, attn_weights)))))"

subsection \<open>\<open>MultiHeadedAttention\<close>\<close>

text \<open>
  \<open>nn.Linear\<close>: a weight of shape \<open>(out_features, in_features)\<close> and a bias of shape
  \<open>(out_features)\<close>, applied to the last dimension of its input.
\<close>

record linear =
  lin_weight :: "real tensor"
  lin_bias :: "real tensor"

definition apply_linear :: "linear \<Rightarrow> real tensor \<Rightarrow> error + real tensor" where
  "apply_linear l x =
     (let out_f = shape (lin_weight l) ! 0;
          in_f = shape (lin_weight l) ! 1
      in if shape x = [] \<or> last (shape x) \<noteq> in_f then Inl RuntimeError
         else Inr (tabulate (butlast (shape x) @ [out_f])
                (\<lambda>idx. sum_list (map (\<lambda>c. elem_at x (butlast idx @ [c])
                                            * elem_at (lin_weight l) [last idx, c])
                                       [0..<in_f])
                       + elem_at (lin_bias l) [last idx])))"

text \<open>
  \<open>t.contiguous().view(dims)\<close>: the elements keep their order and get a new shape with
  the same number of elements; one dimension may be given as -1 and is then inferred.
\<close>

definition view :: "int list \<Rightarrow> 'a tensor \<Rightarrow> error + 'a tensor" where
  "view dims t =
     (let n = int (length (elems t));
          known = prod_list (filter (\<lambda>d. d \<noteq> - 1) dims)
      in if list_ex (\<lambda>d. d < - 1) dims \<or> 1 < length (filter (\<lambda>d. d = - 1) dims)
         then Inl RuntimeError
         else if list_all (\<lambda>d. d \<noteq> - 1) dims
         then (if known = n then Inr (t\<lparr>shape := map nat dims\<rparr>) else Inl RuntimeError)
         else if known = 0 \<or> n mod known \<noteq> 0 then Inl RuntimeError
         else Inr (t\<lparr>shape := map (\<lambda>d. if d = - 1 then nat (n div known) else nat d) dims\<rparr>))"

text \<open>
  The module: the head width \<open>d_k\<close>, the number of heads \<open>h\<close>, the four linear maps, the
  attention weights kept from the last call, and the dropout module, given as what it
  does to a tensor in a call (the identity in evaluation mode).  \<open>__init__\<close> asserts that
  \<open>h\<close> divides \<open>d_model\<close>; the four linear maps are copies of one.
\<close>

record multi_headed_attention =
  mha_d_k :: int
  mha_h :: int
  mha_linears :: "linear list"
  mha_attn :: "real tensor option"
  mha_dropout :: "real tensor \<Rightarrow> real tensor"

definition MultiHeadedAttention ::
  "int \<Rightarrow> int \<Rightarrow> linear \<Rightarrow> (real tensor \<Rightarrow> real tensor) \<Rightarrow> error + multi_headed_attention" where
  "MultiHeadedAttention h d_model lin dropout =
     (if h = 0 then Inl ZeroDivisionError
      else if d_model mod h \<noteq> 0 then Inl AssertionError
      else Inr \<lparr>mha_d_k = d_model div h, mha_h = h, mha_linears = replicate 4 lin,
                mha_attn = None, mha_dropout = dropout\<rparr>)"

text \<open>
  \<open>self.linears[i](x).contiguous().view(N, L, self.h, self.d_k).transpose(1, 2)\<close>, the
  expression \<open>forward\<close> applies to the query, the key and the value.
\<close>

definition split_heads ::
  "multi_headed_attention \<Rightarrow> nat \<Rightarrow> real tensor \<Rightarrow> nat \<Rightarrow> nat \<Rightarrow> error + real tensor" where
  "split_heads self i x n l =
     (case apply_linear (mha_linears self ! i) x of
        Inl e \<Rightarrow> Inl e
      | Inr y \<Rightarrow>
          (case view [int n, int l, mha_h self, mha_d_k self] y of
             Inl e \<Rightarrow> Inl e
           | Inr z \<Rightarrow> transpose_dims 1 2 z))"

text \<open>
  The mask step of \<open>forward\<close>: only a mask of rank 3 is used; it gets a head dimension, is
  repeated over the heads and, when its query dimension has size 1, over the queries.
\<close>

definition apply_mask ::
  "multi_headed_attention \<Rightarrow> nat \<Rightarrow> real tensor \<Rightarrow> int tensor option \<Rightarrow> error + real tensor" where
  "apply_mask self Lq attn_weights msk =
     (case msk of
        None \<Rightarrow> Inr attn_weights
      | Some m \<Rightarrow>
          if length (shape m) = 3
          then (case unsqueeze 1 m of
                  Inl e \<Rightarrow> Inl e
                | Inr m1 \<Rightarrow>
                    (case repeat [1, mha_h self, 1, 1] m1 of
                       Inl e \<Rightarrow> Inl e
                     | Inr m2 \<Rightarrow>
                         (case (if shape m2 ! 2 = 1 then repeat [1, 1, int Lq, 1] m2 else Inr m2) of
                            Inl e \<Rightarrow> Inl e
                          | Inr m3 \<Rightarrow>
                              masked_fill attn_weights (eq_scalar m3 0) (- 1000000000))))
          else Inr attn_weights)"

text \<open>
  \<open>forward\<close> returns its output together with the module, whose \<open>attn\<close> now holds the
  attention weights of this call.
\<close>

definition forward ::
  "multi_headed_attention \<Rightarrow> real tensor \<Rightarrow> real tensor \<Rightarrow> real tensor \<Rightarrow> int tensor option
     \<Rightarrow> error + (real tensor \<times> multi_headed_attention)" where
  "forward self query key val msk =
     (if length (shape query) < 2 \<or> length (shape key) < 2 then Inl IndexError
      else (let N = shape query ! 0; Lq = shape query ! 1; Lk = shape key ! 1
            in case split_heads self 0 query N Lq of
                 Inl e \<Rightarrow> Inl e
               | Inr q \<Rightarrow>
             (case split_heads self 1 key N Lk of
                 Inl e \<Rightarrow> Inl e
               | Inr k \<Rightarrow>
             (case split_heads self 2 val N Lk of
                 Inl e \<Rightarrow> Inl e
               | Inr v \<Rightarrow>
             (case transpose_dims 2 3 k of
                 Inl e \<Rightarrow> Inl e
               | Inr keyT \<Rightarrow>
             (case matmul q keyT of
                 Inl e \<Rightarrow> Inl e
               | Inr qk \<Rightarrow>
             (case apply_mask self Lq (div_scalar qk (sqrt (of_int (mha_d_k self)))) msk of
                 Inl e \<Rightarrow> Inl e
               | Inr scores \<Rightarrow>
             (case softmax 3 scores of
                 Inl e \<Rightarrow> Inl e
               | Inr weights \<Rightarrow>
             (let attn_weights = mha_dropout self weights
              in case matmul attn_weights v of
                   Inl e \<Rightarrow> Inl e
                 | Inr attn_out \<Rightarrow>
               (case transpose_dims 1 2 attn_out of
                   Inl e \<Rightarrow> Inl e
                 | Inr attn_t \<Rightarrow>
               (case view [int N, - 1, mha_h self * mha_d_k self] attn_t of
                   Inl e \<Rightarrow> Inl e
                 | Inr cat \<Rightarrow>
               (case apply_linear (mha_linears self ! 3) cat of
                   Inl e \<Rightarrow> Inl e
                 | Inr x \<Rightarrow> Inr (x, self\<lparr>mha_attn := Some attn_weights\<rparr>)))))))))))))"

text \<open>
  A small module on which \<open>forward\<close> is evaluated below: one head of width 1, linear maps
  that are the identity, and dropout in evaluation mode.
\<close>

definition unit_linear :: linear where
  "unit_linear =
     \<lparr>lin_weight = \<lparr>shape = [1, 1], elems = [1]\<rparr>, lin_bias = \<lparr>shape = [1], elems = [0]\<rparr>\<rparr>"

definition mha_ex :: multi_headed_attention where
  "mha_ex =
     \<lparr>mha_d_k = 1, mha_h = 1, mha_linears = replicate 4 unit_linear, mha_attn = None,
      mha_dropout = (\<lambda>t. t)\<rparr>"

section \<open>Properties of \<open>collate_batch\<close>\<close>










section \<open>Properties of \<open>greedy_decode\<close>\<close>












section \<open>Properties of \<open>beam_search_decode\<close>\<close>

lemma topk_result:
  assumes "topk t k = Inr (vals, idxs)"
  shows "0 \<le> k \<and> length idxs = nat k \<and> length vals = nat k \<and> list_all (\<lambda>x. x < length t) idxs"
proof -
  from assms have k: "0 \<le> k" "k \<le> int (length t)"
    by (auto simp: topk_def split: if_splits)
  let ?sel = "take (nat k) (sort_key (\<lambda>p. - snd p) (enumerate 0 t))"
  from assms k have v: "vals = map snd ?sel" and i: "idxs = map fst ?sel"
    by (auto simp: topk_def Let_def split: if_splits)
  have len: "length ?sel = nat k" using k by simp
  have "set ?sel \<subseteq> set (enumerate 0 t)"
    using set_take_subset[of "nat k" "sort_key (\<lambda>p. - snd p) (enumerate 0 t)"] by simp
  then have "\<forall>p \<in> set ?sel. fst p < length t"
    by (auto simp: in_set_enumerate_eq)
  then have "list_all (\<lambda>x. x < length t) idxs"
    unfolding i by (simp add: list_all_iff)
  with k len v i show ?thesis by simp
qed

lemma extend_hyps_length: "extend_hyps e ys prob sel = Inr newys \<Longrightarrow> length newys = length sel"
proof (induction sel arbitrary: newys)
  case Nil
  then show ?case by simp
next
  case (Cons p sel)
  obtain i j where p: "p = (i, j)" by (cases p)
  from Cons.prems obtain rest where
    "extend_hyps e ys prob sel = Inr rest" "length newys = Suc (length rest)"
    by (auto simp: p Let_def split: if_splits sum.splits)
  with Cons.IH show ?case by simp
qed

lemma beam_step_cases:
  assumes "beam_step m bs e i st = Inr (st', stop)"
  obtains lst prob combined k_values k_indices newys where
    "last_position (decode m (bs_memory st) (bs_src_mask st) (bs_ys st)
        (type_as (subsequent_mask (size1 (bs_ys st))))) = Inr lst"
    "zero_finished e (bs_ys st) (generator m lst) = Inr prob"
    "(if i = 0 then Inr prob else add_scores (bs_scores st) (size1 (generator m lst)) prob) = Inr combined"
    "topk (concat combined) bs = Inr (k_values, k_indices)"
    "extend_hyps e (bs_ys st) prob
       (zip (map (\<lambda>x. x div size1 combined) k_indices) (map (\<lambda>x. x mod size1 combined) k_indices))
       = Inr newys"
    "newys \<noteq> []"
    "stop = all_ended bs e newys"
    "bs_ys st' = newys"
    "bs_scores st' = k_values"
    "if \<not> stop \<and> last (map (\<lambda>x. x div size1 combined) k_indices) = 0
     then expand bs (bs_memory st) = Inr (bs_memory st') \<and>
          expand bs (bs_src_mask st) = Inr (bs_src_mask st')
     else bs_memory st' = bs_memory st \<and> bs_src_mask st' = bs_src_mask st"
  using assms unfolding beam_step_def Let_def
  by (auto split: sum.splits prod.splits if_splits)


lemma beam_step_rows:
  assumes "beam_step m bs e i st = Inr (st', stop)"
  shows "0 < bs \<and> length (bs_ys st') = nat bs \<and> stop = all_ended bs e (bs_ys st')"
proof -
  from assms obtain lst prob combined k_values k_indices newys where
    c: "topk (concat combined) bs = Inr (k_values, k_indices)"
       "extend_hyps e (bs_ys st) prob
          (zip (map (\<lambda>x. x div size1 combined) k_indices) (map (\<lambda>x. x mod size1 combined) k_indices))
          = Inr newys"
       "newys \<noteq> []" "stop = all_ended bs e newys" "bs_ys st' = newys"
    by (rule beam_step_cases)
  from topk_result[OF c(1)] have k: "0 \<le> bs" "length k_indices = nat bs" by simp_all
  from extend_hyps_length[OF c(2)] k have len: "length newys = nat bs" by simp
  with c(3) have "0 < nat bs" by (cases newys) auto
  then have "0 < bs" by simp
  with len c(4,5) show ?thesis by simp
qed







text \<open>The loop body evaluated on the two small models.\<close>

lemmas beam_eval = beam_step_def beam_init_def last_position_def size1_def
      zero_finished_def add_scores_def topk_def all_ended_def expand_def enumerate_eq_zip
      numeral_2_eq_2 upt_rec

lemma example_step0:
  "beam_step example_model 2 1 0 (beam_init example_model () [()] 0)
     = Inr (\<lparr>bs_ys = [[0, 2], [0, 1]], bs_scores = [- 1, - 8],
             bs_memory = [(), ()], bs_src_mask = [(), ()]\<rparr>, False)"
  by (simp add: beam_eval example_model_def)

lemma example_step1:
  "beam_step example_model 2 1 (Suc 0)
       \<lparr>bs_ys = [[0, 2], [0, 1]], bs_scores = [- 1, - 8],
        bs_memory = [(), ()], bs_src_mask = [(), ()]\<rparr>
     = Inr (\<lparr>bs_ys = [[0, 2, 1], [0, 2, 2]], bs_scores = [- 2, - 6],
             bs_memory = [(), ()], bs_src_mask = [(), ()]\<rparr>, False)"
  by (simp add: beam_eval example_model_def)

lemma example_step2:
  "beam_step example_model 2 1 (Suc (Suc 0))
       \<lparr>bs_ys = [[0, 2, 1], [0, 2, 2]], bs_scores = [- 2, - 6],
        bs_memory = [(), ()], bs_src_mask = [(), ()]\<rparr>
     = Inr (\<lparr>bs_ys = [[0, 2, 1, 1], [0, 2, 1, 1]], bs_scores = [- 2, - 2],
             bs_memory = [(), ()], bs_src_mask = [(), ()]\<rparr>, True)"
  by (simp add: beam_eval example_model_def)

lemma example_loop3:
  "beam_loop example_model 2 1 3 0 (beam_init example_model () [()] 0)
     = Inr (\<lparr>bs_ys = [[0, 2, 1, 1], [0, 2, 1, 1]], bs_scores = [- 2, - 2],
             bs_memory = [(), ()], bs_src_mask = [(), ()]\<rparr>, 3)"
  by (simp add: numeral_3_eq_3 example_step0 example_step1 example_step2)



lemma saturated_step0_single:
  "beam_step saturated_model 1 1 0 (beam_init saturated_model () [()] 0)
     = Inr (\<lparr>bs_ys = [[0, 1]], bs_scores = [0],
             bs_memory = [()], bs_src_mask = [()]\<rparr>, True)"
  by (simp add: beam_eval saturated_model_def)


text \<open>
  C3.  The extension step on a parent that has not ended.  With \<open>end_idx = 1\<close> the
  parent \<open>[0]\<close> is not finished and its distribution is left as the generator gave it; the
  selected pair is (row 0, token 2), whose log-probability is exactly 0; the test
  \<open>prob[i][j] == 0\<close> succeeds and the parent is extended with \<open>end_idx\<close>, not with the selected
  token 2.
\<close>

theorem beam_extend_live_parent_zero_logprob:
  "zero_finished 1 [[0]] [[- 100, - 50, 0]] = Inr [[- 100, - 50, 0]] \<and>
   topk (concat [[- 100, - 50, 0]]) 1 = Inr ([0], [2]) \<and>
   extend_hyps 1 [[0]] [[- 100, - 50, 0]] [(0, 2)] = Inr [[0, 1]] \<and>
   beam_step saturated_model 1 1 0 (beam_init saturated_model () [()] 0)
     = Inr (\<lparr>bs_ys = [[0, 1]], bs_scores = [0], bs_memory = [()], bs_src_mask = [()]\<rparr>, True)"
  by (simp add: saturated_step0_single zero_finished_def topk_def enumerate_eq_zip upt_rec)

text \<open>
  C6.  Greedy decoding and beam search of width 1 on the same model and input: greedy
  chooses token 2 in its first iteration, beam search appends token 1 in its first
  iteration.
\<close>

theorem beam_width_one_differs_from_greedy:
  "greedy_decode saturated_model () [()] 3 0 = Inr [[0, 2, 2]] \<and>
   beam_search_decode saturated_model () [()] 3 0 1 1 = Inr [[0, 1]]"
proof -
  have g: "greedy_decode saturated_model () [()] 3 0 = Inr [[0, 2, 2]]"
    by (simp add: greedy_decode_def greedy_step_def next_word_def saturated_model_def
        last_position_def max_dim1_def cat_dim1_def size1_def numeral_2_eq_2)
  have b: "beam_search_decode saturated_model () [()] 3 0 1 1 = Inr [[0, 1]]"
    by (simp add: beam_search_decode_def numeral_2_eq_2 saturated_step0_single max_by_score_def)
  from g b show ?thesis by simp
qed





lemma loop_leaves_when_all_ended:
  assumes "beam_loop m bs e k i st = Inr (st', j)"
    and "all_ended bs e (bs_ys st')" and "0 < k" and "k \<le> n"
  shows "beam_loop m bs e n i st = Inr (st', j) \<and> i < j \<and> j \<le> i + k"
  using assms
proof (induction k arbitrary: n i st)
  case 0
  then show ?case by simp
next
  case (Suc k)
  from Suc.prems(4) obtain n' where n: "n = Suc n'" and kn: "k \<le> n'" by (cases n) auto
  from Suc.prems(1) obtain st1 stop where
    step: "beam_step m bs e i st = Inr (st1, stop)"
    by (auto split: sum.splits)
  show ?case
  proof (cases stop)
    case True
    with step Suc.prems(1) have "st' = st1" "j = Suc i" by simp_all
    with step True show ?thesis by (simp add: n)
  next
    case False
    with step Suc.prems(1) have rest: "beam_loop m bs e k (Suc i) st1 = Inr (st', j)" by simp
    have kpos: "0 < k"
    proof (rule ccontr)
      assume "\<not> 0 < k"
      with rest have "st' = st1" by simp
      with beam_step_rows[OF step] Suc.prems(2) False show False by simp
    qed
    from Suc.IH[OF rest Suc.prems(2) kpos kn]
    have "beam_loop m bs e n' (Suc i) st1 = Inr (st', j) \<and> Suc i < j \<and> j \<le> Suc i + k" .
    with step False show ?thesis by (simp add: n)
  qed
qed

text \<open>
  C7.  If within some \<open>k \<le> max_len - 2\<close> iterations the loop arrives at a state in which
  all \<open>beam_size\<close> hypotheses end with \<open>end_idx\<close>, then the loop with the full budget of
  \<open>max_len - 1\<close> iterations ends in that same state after the same \<open>j \<le> k\<close> iterations:
  it leaves at the iteration in which the hypotheses have all ended and performs fewer
  than \<open>max_len - 1\<close> iterations.
\<close>

theorem beam_loop_stops_early:
  assumes "beam_loop m beam_size end_idx k 0 st0 = Inr (st', j)"
    and "all_ended beam_size end_idx (bs_ys st')"
    and "0 < k" and "int k \<le> max_len - 2"
  shows "beam_loop m beam_size end_idx (nat (max_len - 1)) 0 st0 = Inr (st', j) \<and>
         j \<le> k \<and> j < nat (max_len - 1)"
proof -
  have kn: "k \<le> nat (max_len - 1)" and lt: "k < nat (max_len - 1)" using assms(4) by linarith+
  from loop_leaves_when_all_ended[OF assms(1,2,3) kn] lt show ?thesis by auto
qed


theorem beam_loop_stops_early_witness:
  "beam_loop example_model 2 1 3 0 (beam_init example_model () [()] 0)
     = Inr (\<lparr>bs_ys = [[0, 2, 1, 1], [0, 2, 1, 1]], bs_scores = [- 2, - 2],
             bs_memory = [(), ()], bs_src_mask = [(), ()]\<rparr>, 3) \<and>
   all_ended 2 1 [[0, 2, 1, 1], [0, 2, 1, 1]] \<and>
   (0::nat) < 3 \<and> int 3 \<le> 6 - 2 \<and>
   beam_loop example_model 2 1 (nat (6 - 1)) 0 (beam_init example_model () [()] 0)
     = Inr (\<lparr>bs_ys = [[0, 2, 1, 1], [0, 2, 1, 1]], bs_scores = [- 2, - 2],
             bs_memory = [(), ()], bs_src_mask = [(), ()]\<rparr>, 3) \<and>
   (3::nat) < nat (6 - 1)"
proof -
  have a: "all_ended 2 1 (bs_ys \<lparr>bs_ys = [[0, 2, 1, 1], [0, 2, 1, 1]], bs_scores = [- 2, - 2],
             bs_memory = [(), ()], bs_src_mask = [(), ()]\<rparr>)"
    by (simp add: all_ended_def)
  have p: "(0::nat) < 3" by simp
  have b: "int 3 \<le> 6 - 2" by simp
  from beam_loop_stops_early[OF example_loop3 a p b] example_loop3 a show ?thesis
    by simp
qed

section \<open>Properties of \<open>LabelSmoothing\<close>\<close>

lemma size1_rows: "t \<noteq> [] \<Longrightarrow> list_all (\<lambda>r. length r = n) t \<Longrightarrow> size1 t = n"
  by (cases t) (auto simp: size1_def)

lemma map_const_row: "map (\<lambda>_. c) r = replicate (length r) c"
  by (induction r) auto

lemma scatter_rows_nth:
  assumes "length target \<le> length t"
    and "list_all (\<lambda>c. 0 \<le> c \<and> c < int (size1 t)) target"
  shows "\<exists>u. scatter_rows t target v = Inr u \<and> length u = length t \<and>
             (\<forall>i < length target. u ! i = (t ! i)[nat (target ! i) := v])"
proof -
  let ?u = "map2 (\<lambda>row c. row[nat c := v]) (take (length target) t) target @ drop (length target) t"
  have run: "scatter_rows t target v = Inr ?u"
    using assms by (simp add: scatter_rows_def)
  have len: "length ?u = length t" using assms(1) by simp
  have "\<forall>i < length target. ?u ! i = (t ! i)[nat (target ! i) := v]"
    using assms(1) by (auto simp: nth_append)
  with run len show ?thesis by blast
qed

lemma set_column_nth:
  assumes "0 \<le> c" and "c < int (size1 t)"
  shows "set_column t c v = Inr (map (\<lambda>row. row[nat c := v]) t)"
  using assms by (simp add: set_column_def Let_def)

lemma index_fill_rows_nth:
  "i < length t \<Longrightarrow>
   index_fill_rows t idx v ! i = (if i \<in> set idx then map (\<lambda>_. v) (t ! i) else t ! i)"
  by (simp add: index_fill_rows_def nth_enumerate_eq)

lemma nonzero_eq_mem: "i \<in> set (nonzero_eq target c) \<longleftrightarrow> i < length target \<and> target ! i = c"
  by (auto simp: nonzero_eq_def)

text \<open>
  The stored tensor, row by row, for a well-formed call: \<open>x\<close> has rows of width \<open>sz\<close>,
  \<open>sz\<close> is not 2, there are no more targets than rows, and the targets and the padding
  index are classes.
\<close>

lemma true_dist_row:
  assumes x: "list_all (\<lambda>r. length r = nat sz) x"
    and sz: "sz \<noteq> 2"
    and len: "length target \<le> length x"
    and tg: "list_all (\<lambda>c. 0 \<le> c \<and> c < sz) target"
    and p: "0 \<le> padding_idx" "padding_idx < sz"
    and i: "i < length target"
  shows "\<exists>td. true_dist (LabelSmoothing sz padding_idx smoothing) x target = Inr td \<and>
           length td = length x \<and>
           td ! i = (if target ! i = padding_idx then replicate (nat sz) 0
                     else (replicate (nat sz) (smoothing / of_int (sz - 2)))
                            [nat (target ! i) := 1 - smoothing, nat padding_idx := 0])"
proof -
  let ?c = "smoothing / of_int (sz - 2)"
  let ?self = "LabelSmoothing sz padding_idx smoothing"
  let ?filled = "map (map (\<lambda>_. ?c)) x"
  have xne: "x \<noteq> []" using i len by auto
  have s1: "size1 x = nat sz" using size1_rows[OF xne x] .
  have szpos: "0 \<le> sz" using p by linarith
  have fl: "list_all (\<lambda>r. length r = nat sz) ?filled"
    using x by (simp add: list_all_iff)
  have fne: "?filled \<noteq> []" using xne by simp
  have s1f: "size1 ?filled = nat sz" using size1_rows[OF fne fl] .
  have ix: "i < length x" using i len by simp
  have frow: "?filled ! i = replicate (nat sz) ?c"
    using ix x by (simp add: map_const_row list_all_length)
  have tg': "list_all (\<lambda>c. 0 \<le> c \<and> c < int (size1 ?filled)) target"
    using tg szpos unfolding s1f by simp
  have len': "length target \<le> length ?filled" using len by simp
  from scatter_rows_nth[OF len' tg', of "1 - smoothing"] obtain u where
    u: "scatter_rows ?filled target (1 - smoothing) = Inr u" "length u = length ?filled"
       "\<forall>i < length target. u ! i = (?filled ! i)[nat (target ! i) := 1 - smoothing]"
    by blast
  have urow: "u ! i = (replicate (nat sz) ?c)[nat (target ! i) := 1 - smoothing]"
    using u(3) i frow by simp
  have une: "u \<noteq> []" using u(2) fne by auto
  have u0: "u ! 0 = (?filled ! 0)[nat (target ! 0) := 1 - smoothing]"
    using u(3) i by (cases "length target") auto
  have "length (?filled ! 0) = nat sz"
    using fl fne by (cases ?filled) (auto)
  then have "length (u ! 0) = nat sz" using u0 by simp
  then have s1u: "size1 u = nat sz" using une by (cases u) (auto simp: size1_def)
  have pc: "padding_idx < int (size1 u)" using p szpos by (simp add: s1u)
  have z: "set_column u padding_idx 0 = Inr (map (\<lambda>row. row[nat padding_idx := 0]) u)"
    using set_column_nth[OF p(1) pc] .
  let ?z = "map (\<lambda>row. row[nat padding_idx := 0]) u"
  let ?td = "index_fill_rows ?z (nonzero_eq target padding_idx) 0"
  have run: "true_dist ?self x target = Inr ?td"
    using sz szpos u(1) z by (simp add: true_dist_def LabelSmoothing_def s1 Let_def)
  have iz: "i < length ?z" using ix u(2) by simp
  have ltd: "length ?td = length x" by (simp add: index_fill_rows_def u(2))
  have zrow: "?z ! i = (replicate (nat sz) ?c)[nat (target ! i) := 1 - smoothing, nat padding_idx := 0]"
    using iz urow by simp
  have "?td ! i = (if target ! i = padding_idx then map (\<lambda>_. 0) (?z ! i) else ?z ! i)"
    using index_fill_rows_nth[OF iz] i by (simp add: nonzero_eq_mem)
  then have "?td ! i = (if target ! i = padding_idx then replicate (nat sz) 0
                     else (replicate (nat sz) ?c)[nat (target ! i) := 1 - smoothing, nat padding_idx := 0])"
    by (simp add: zrow map_const_row)
  with run ltd show ?thesis by blast
qed

lemma sum_list_update_real:
  "k < length xs \<Longrightarrow> sum_list (xs[k := (v::real)]) = sum_list xs + v - xs ! k"
  by (induction xs arbitrary: k) (auto split: nat.splits)

lemma smoothed_row_sum:
  assumes "t < n" and "q < n" and "t \<noteq> q"
  shows "sum_list ((replicate n (c::real))[t := a, q := 0]) = a + real (n - 2) * c"
proof -
  have "sum_list ((replicate n c)[t := a]) = real n * c + a - c"
    using assms(1) by (simp add: sum_list_update_real sum_list_replicate)
  moreover have "((replicate n c)[t := a]) ! q = c" using assms by simp
  ultimately have "sum_list ((replicate n c)[t := a, q := 0]) = real n * c + a - c + 0 - c"
    using assms(2) by (simp add: sum_list_update_real)
  moreover have "real (n - 2) = real n - 2" using assms by auto
  ultimately show ?thesis by (simp add: algebra_simps)
qed


text \<open>
  C4 (amended).  For \<open>LabelSmoothing(size, padding_idx, smoothing)\<close> with \<open>size \<noteq> 2\<close>, an
  input of width \<open>size\<close>, and targets and padding index that are classes: \<open>forward\<close> builds
  its tensor without raising; the row of a target \<open>t \<noteq> padding_idx\<close> holds
  \<open>1 - smoothing\<close> at \<open>t\<close>, 0 at \<open>padding_idx\<close> and \<open>smoothing / (size - 2)\<close> everywhere else,
  and sums to \<open>(1 - smoothing) + smoothing\<close>; the row of a target equal to \<open>padding_idx\<close>
  is zero throughout.
\<close>

theorem label_smoothing_row:
  assumes "list_all (\<lambda>r. length r = nat sz) x"
    and "sz \<noteq> 2"
    and "length target \<le> length x"
    and "list_all (\<lambda>c. 0 \<le> c \<and> c < sz) target"
    and "0 \<le> padding_idx" and "padding_idx < sz"
    and "i < length target"
  shows "\<exists>td. true_dist (LabelSmoothing sz padding_idx smoothing) x target = Inr td \<and>
     length (td ! i) = nat sz \<and>
     (target ! i \<noteq> padding_idx \<longrightarrow>
        td ! i ! nat (target ! i) = 1 - smoothing \<and>
        td ! i ! nat padding_idx = 0 \<and>
        (\<forall>j < nat sz. j \<noteq> nat (target ! i) \<and> j \<noteq> nat padding_idx \<longrightarrow>
            td ! i ! j = smoothing / of_int (sz - 2)) \<and>
        sum_list (td ! i) = (1 - smoothing) + smoothing) \<and>
     (target ! i = padding_idx \<longrightarrow> td ! i = replicate (nat sz) 0)"
proof -
  let ?c = "smoothing / of_int (sz - 2)"
  let ?t = "nat (target ! i)" and ?p = "nat padding_idx"
  let ?row = "(replicate (nat sz) ?c)[?t := 1 - smoothing, ?p := 0]"
  from true_dist_row[OF assms, of smoothing] obtain td where
    td: "true_dist (LabelSmoothing sz padding_idx smoothing) x target = Inr td"
        "td ! i = (if target ! i = padding_idx then replicate (nat sz) 0 else ?row)"
    by blast
  have ti: "0 \<le> target ! i" "target ! i < sz"
    using assms(4,7) by (simp_all add: list_all_length)
  have tn: "?t < nat sz" and pn: "?p < nat sz" using ti assms(5,6) by linarith+
  have len: "length (td ! i) = nat sz" by (simp add: td(2))
  have pad: "target ! i = padding_idx \<longrightarrow> td ! i = replicate (nat sz) 0"
    by (simp add: td(2))
  have live: "target ! i \<noteq> padding_idx \<longrightarrow>
        td ! i ! ?t = 1 - smoothing \<and> td ! i ! ?p = 0 \<and>
        (\<forall>j < nat sz. j \<noteq> ?t \<and> j \<noteq> ?p \<longrightarrow> td ! i ! j = ?c) \<and>
        sum_list (td ! i) = (1 - smoothing) + smoothing"
  proof
    assume ne: "target ! i \<noteq> padding_idx"
    then have row: "td ! i = ?row" by (simp add: td(2))
    have tp: "?t \<noteq> ?p" using ne ti(1) assms(5) by linarith
    have a: "td ! i ! ?t = 1 - smoothing" using tn tp by (simp add: row)
    have b: "td ! i ! ?p = 0" using pn by (simp add: row)
    have c: "\<forall>j < nat sz. j \<noteq> ?t \<and> j \<noteq> ?p \<longrightarrow> td ! i ! j = ?c"
      by (simp add: row)
    have "sum_list ?row = (1 - smoothing) + real (nat sz - 2) * ?c"
      using smoothed_row_sum[OF tn pn tp] .
    moreover have "3 \<le> sz" using tn pn tp assms(2) by linarith
    then have "real (nat sz - 2) = of_int (sz - 2)" "(of_int (sz - 2) :: real) \<noteq> 0"
      by auto
    ultimately have d: "sum_list (td ! i) = (1 - smoothing) + smoothing"
      by (simp add: row)
    from a b c d show "td ! i ! ?t = 1 - smoothing \<and> td ! i ! ?p = 0 \<and>
        (\<forall>j < nat sz. j \<noteq> ?t \<and> j \<noteq> ?p \<longrightarrow> td ! i ! j = ?c) \<and>
        sum_list (td ! i) = (1 - smoothing) + smoothing" by blast
  qed
  from td(1) len live pad show ?thesis by blast
qed

lemma true_dist_example:
  "true_dist (LabelSmoothing 5 0 (1 / 10)) [[0, 0, 0, 0, 0], [0, 0, 0, 0, 0]] [2, 0]
     = Inr [[0, 1 / 30, 9 / 10, 1 / 30, 1 / 30], [0, 0, 0, 0, 0]]"
  by (simp add: true_dist_def LabelSmoothing_def size1_def scatter_rows_def set_column_def
      nonzero_eq_def index_fill_rows_def enumerate_eq_zip upt_rec numeral_2_eq_2)

theorem label_smoothing_row_witness:
  "list_all (\<lambda>r. length r = nat 5) [[0, 0, 0, 0, 0], [0, 0, 0, 0, 0::real]] \<and>
   (5::int) \<noteq> 2 \<and>
   length [2, 0::int] \<le> length [[0, 0, 0, 0, 0], [0, 0, 0, 0, 0::real]] \<and>
   list_all (\<lambda>c. 0 \<le> c \<and> c < 5) [2, 0::int] \<and> (0::int) \<le> 0 \<and> (0::int) < 5 \<and>
   (0::nat) < length [2, 0::int] \<and> [2, 0::int] ! 0 \<noteq> 0 \<and>
   true_dist (LabelSmoothing 5 0 (1 / 10)) [[0, 0, 0, 0, 0], [0, 0, 0, 0, 0]] [2, 0]
     = Inr [[0, 1 / 30, 9 / 10, 1 / 30, 1 / 30], [0, 0, 0, 0, 0]] \<and>
   sum_list [0, 1 / 30, 9 / 10, 1 / 30, 1 / 30 :: real] = (1 - 1 / 10) + 1 / 10"
proof -
  have h1: "list_all (\<lambda>r. length r = nat 5) [[0, 0, 0, 0, 0], [0, 0, 0, 0, 0::real]]" by simp
  have h2: "(5::int) \<noteq> 2" by simp
  have h3: "length [2, 0::int] \<le> length [[0, 0, 0, 0, 0], [0, 0, 0, 0, 0::real]]" by simp
  have h4: "list_all (\<lambda>c. 0 \<le> c \<and> c < 5) [2, 0::int]" by simp
  have h5: "(0::int) \<le> 0" "(0::int) < 5" "(0::nat) < length [2, 0::int]" by simp_all
  from label_smoothing_row[OF h1 h2 h3 h4 h5, of "1 / 10"]
  have "sum_list [0, 1 / 30, 9 / 10, 1 / 30, 1 / 30 :: real] = (1 - 1 / 10) + 1 / 10"
    by (simp add: true_dist_example)
  with h1 true_dist_example show ?thesis by simp
qed

text \<open>
  C4, as stated, fails for \<open>size = 2\<close>: the target 1 differs from the padding index 0,
  but the fill value \<open>smoothing / (size - 2)\<close> divides by zero and \<open>forward\<close> raises
  before any row exists.
\<close>

theorem label_smoothing_size_two_counterexample:
  "true_dist (LabelSmoothing 2 0 (1 / 10)) [[0, 0]] [1] = Inl ZeroDivisionError"
  by (simp add: true_dist_def LabelSmoothing_def size1_def)

section \<open>Properties of \<open>attention\<close> and \<open>MultiHeadedAttention\<close>\<close>

text \<open>The functions evaluated on small tensors.\<close>

lemmas tensor_eval = transpose_dims_def swap_at_def matmul_def matmul_batched_def tabulate_def
  broadcast_shapes_def broadcast_index_def elem_at_def div_scalar_def eq_scalar_def
  masked_fill_def unsqueeze_def repeat_def upt_rec

text \<open>
  Two queries, three keys, no mask: the scores have shape \<open>(1, 2, 3)\<close>.  A mask of shape
  \<open>(1, 2, 3)\<close> fills the positions where it is 0.
\<close>

lemma scores_no_mask:
  "attention_scores \<lparr>shape = [1, 2, 1], elems = [1, 2]\<rparr> \<lparr>shape = [1, 3, 1], elems = [1, 2, 3]\<rparr>
      None = Inr \<lparr>shape = [1, 2, 3], elems = [1, 2, 3, 2, 4, 6]\<rparr>"
  by (simp add: attention_scores_def tensor_eval)

lemma scores_3d_mask:
  "attention_scores \<lparr>shape = [1, 2, 1], elems = [1, 2]\<rparr> \<lparr>shape = [1, 3, 1], elems = [1, 2, 3]\<rparr>
      (Some \<lparr>shape = [1, 2, 3], elems = [1, 1, 0, 1, 1, 0]\<rparr>)
     = Inr \<lparr>shape = [1, 2, 3], elems = [1, 2, - 1000000000, 2, 4, - 1000000000]\<rparr>"
  by (simp add: attention_scores_def tensor_eval)

text \<open>
  With as many queries as keys the two-dimensional mask is repeated over the queries and
  applied.
\<close>

lemma scores_2d_mask_square:
  "attention_scores \<lparr>shape = [1, 3, 1], elems = [1, 2, 3]\<rparr> \<lparr>shape = [1, 3, 1], elems = [1, 2, 3]\<rparr>
      (Some \<lparr>shape = [1, 3], elems = [1, 1, 0]\<rparr>)
     = Inr \<lparr>shape = [1, 3, 3],
            elems = [1, 2, - 1000000000, 2, 4, - 1000000000, 3, 6, - 1000000000]\<rparr>"
  by (simp add: attention_scores_def tensor_eval)

lemma scores_2d_mask_mismatch:
  "attention_scores \<lparr>shape = [1, 2, 1], elems = [1, 2]\<rparr> \<lparr>shape = [1, 3, 1], elems = [1, 2, 3]\<rparr>
      (Some \<lparr>shape = [1, 3], elems = [1, 1, 0]\<rparr>) = Inl RuntimeError"
  by (simp add: attention_scores_def tensor_eval)

text \<open>
  C1.  Two queries, three keys and a mask of shape \<open>(1, 3)\<close>: the mask is repeated
  \<open>key.shape[1] = 3\<close> times, not once per query, so it has shape \<open>(1, 3, 3)\<close> against
  scores of shape \<open>(1, 2, 3)\<close>, and \<open>masked_fill\<close> raises; \<open>attention\<close> returns no scores
  and no output.
\<close>

theorem attention_2d_mask_unequal_lengths:
  "repeat [1, int (shape \<lparr>shape = [1, 3, 1], elems = [1, 2, 3::real]\<rparr> ! 1), 1]
      \<lparr>shape = [1, 1, 3], elems = [1, 1, 0::int]\<rparr>
     = Inr \<lparr>shape = [1, 3, 3], elems = [1, 1, 0, 1, 1, 0, 1, 1, 0]\<rparr> \<and>
   attention_scores \<lparr>shape = [1, 2, 1], elems = [1, 2]\<rparr> \<lparr>shape = [1, 3, 1], elems = [1, 2, 3]\<rparr>
      (Some \<lparr>shape = [1, 3], elems = [1, 1, 0]\<rparr>) = Inl RuntimeError \<and>
   attention (\<lambda>p t. t) \<lparr>shape = [1, 2, 1], elems = [1, 2]\<rparr> \<lparr>shape = [1, 3, 1], elems = [1, 2, 3]\<rparr>
      \<lparr>shape = [1, 3, 1], elems = [1, 1, 1]\<rparr>
      (Some \<lparr>shape = [1, 3], elems = [1, 1, 0]\<rparr>) None = Inl RuntimeError"
proof -
  have r: "repeat [1, int (shape \<lparr>shape = [1, 3, 1], elems = [1, 2, 3::real]\<rparr> ! 1), 1]
      \<lparr>shape = [1, 1, 3], elems = [1, 1, 0::int]\<rparr>
     = Inr \<lparr>shape = [1, 3, 3], elems = [1, 1, 0, 1, 1, 0, 1, 1, 0]\<rparr>"
    by (simp add: tensor_eval)
  have a: "attention (\<lambda>p t. t) \<lparr>shape = [1, 2, 1], elems = [1, 2]\<rparr>
      \<lparr>shape = [1, 3, 1], elems = [1, 2, 3]\<rparr> \<lparr>shape = [1, 3, 1], elems = [1, 1, 1]\<rparr>
      (Some \<lparr>shape = [1, 3], elems = [1, 1, 0]\<rparr>) None = Inl RuntimeError"
    unfolding attention_def scores_2d_mask_mismatch by simp
  from r scores_2d_mask_mismatch a show ?thesis by blast
qed

text \<open>A mask of rank other than 3 leaves the mask step of \<open>forward\<close> without effect.\<close>

lemma apply_mask_rank2:
  "length (shape m) = 2 \<Longrightarrow> apply_mask self Lq w (Some m) = apply_mask self Lq w None"
  by (simp add: apply_mask_def)

lemma mha_ex_forward:
  "forward mha_ex \<lparr>shape = [1, 1, 1], elems = [5]\<rparr> \<lparr>shape = [1, 2, 1], elems = [0, 0]\<rparr>
       \<lparr>shape = [1, 2, 1], elems = [1, 3]\<rparr> None
     = Inr (\<lparr>shape = [1, 1, 1], elems = [2]\<rparr>,
            mha_ex\<lparr>mha_attn := Some \<lparr>shape = [1, 1, 1, 2], elems = [1 / 2, 1 / 2]\<rparr>\<rparr>)"
  by (simp add: forward_def split_heads_def mha_ex_def unit_linear_def apply_linear_def
      view_def softmax_def apply_mask_def tensor_eval eval_nat_numeral)

text \<open>
  The same mask given with rank 3, as \<open>(N, 1, Lk)\<close>, is applied: the result differs from
  the unmasked one.
\<close>

lemma mha_ex_forward_3d_mask:
  "forward mha_ex \<lparr>shape = [1, 1, 1], elems = [5]\<rparr> \<lparr>shape = [1, 2, 1], elems = [0, 0]\<rparr>
       \<lparr>shape = [1, 2, 1], elems = [1, 3]\<rparr> (Some \<lparr>shape = [1, 1, 2], elems = [1, 0]\<rparr>)
     \<noteq> forward mha_ex \<lparr>shape = [1, 1, 1], elems = [5]\<rparr> \<lparr>shape = [1, 2, 1], elems = [0, 0]\<rparr>
       \<lparr>shape = [1, 2, 1], elems = [1, 3]\<rparr> None"
  unfolding mha_ex_forward
  by (simp add: forward_def split_heads_def mha_ex_def unit_linear_def apply_linear_def
      view_def softmax_def apply_mask_def tensor_eval eval_nat_numeral)

text \<open>
  C10.  For every mask of rank 2, \<open>MultiHeadedAttention.forward\<close> returns what the same
  call returns without a mask: the same output, the same stored attention weights, or the
  same error.
\<close>

theorem mha_forward_ignores_2d_mask:
  assumes "length (shape m) = 2"
  shows "forward self query key val (Some m) = forward self query key val None"
  unfolding forward_def apply_mask_rank2[OF assms] ..

theorem mha_forward_ignores_2d_mask_witness:
  "length (shape \<lparr>shape = [1, 2], elems = [1, 0::int]\<rparr>) = 2 \<and>
   forward mha_ex \<lparr>shape = [1, 1, 1], elems = [5]\<rparr> \<lparr>shape = [1, 2, 1], elems = [0, 0]\<rparr>
       \<lparr>shape = [1, 2, 1], elems = [1, 3]\<rparr> (Some \<lparr>shape = [1, 2], elems = [1, 0]\<rparr>)
     = Inr (\<lparr>shape = [1, 1, 1], elems = [2]\<rparr>,
            mha_ex\<lparr>mha_attn := Some \<lparr>shape = [1, 1, 1, 2], elems = [1 / 2, 1 / 2]\<rparr>\<rparr>)"
proof -
  have h: "length (shape \<lparr>shape = [1, 2], elems = [1, 0::int]\<rparr>) = 2" by simp
  from mha_forward_ignores_2d_mask[OF h, of mha_ex "\<lparr>shape = [1, 1, 1], elems = [5]\<rparr>"
      "\<lparr>shape = [1, 2, 1], elems = [0, 0]\<rparr>" "\<lparr>shape = [1, 2, 1], elems = [1, 3]\<rparr>"]
  have "forward mha_ex \<lparr>shape = [1, 1, 1], elems = [5]\<rparr> \<lparr>shape = [1, 2, 1], elems = [0, 0]\<rparr>
       \<lparr>shape = [1, 2, 1], elems = [1, 3]\<rparr> (Some \<lparr>shape = [1, 2], elems = [1, 0]\<rparr>)
     = Inr (\<lparr>shape = [1, 1, 1], elems = [2]\<rparr>,
            mha_ex\<lparr>mha_attn := Some \<lparr>shape = [1, 1, 1, 2], elems = [1 / 2, 1 / 2]\<rparr>\<rparr>)"
    unfolding mha_ex_forward .
  with h show ?thesis by blast
qed
end
